theory Spec2Isabelle
  imports Complex_Main "HOL-Library.Word"
begin

section \<open>Sensors.h: the data of the sensor classes\<close>

text \<open>
  The header declares the classes \<open>Sensor\<close>, \<open>Potentiometer\<close>, \<open>Sonar\<close> and \<open>AMG\<close>:
  their members and the signatures of their member functions. The bodies of the member
  functions are not part of the header; the only body it holds is the constructor of
  \<open>AMG::vector\<close>.

  Arduino's \<open>byte\<close> is an unsigned 8-bit integer. The width of \<open>unsigned int\<close> depends
  on the board (16 bits on AVR, 32 on ARM), so it stays the type parameter \<open>'w\<close>.
  Names that end in an underscore are reserved in Isabelle: the members \<open>prefix_\<close>,
  \<open>pin_\<close>, \<open>last_value_\<close>, \<open>initialized_\<close>, \<open>gyro_\<close>, \<open>compass_\<close>, \<open>a_\<close>, \<open>m_\<close>, \<open>g_\<close>
  are written without it. \<open>Potentiometer\<close> and \<open>Sonar\<close> both have members \<open>pin\<close> and
  \<open>last_value\<close>, told apart as \<open>Potentiometer.pin\<close> and \<open>Sonar.pin\<close>.
\<close>

type_synonym byte = "8 word"

text \<open>\<^verbatim>\<open>class Sensor { ... protected: const char *prefix_; };\<close>\<close>

record Sensor =
  prefix :: string

text \<open>
  \<^verbatim>\<open>class Potentiometer : public Sensor { ... private: const byte pin_; unsigned int last_value_; };\<close>
\<close>

record (overloaded) 'w Potentiometer = Sensor +
  pin :: byte
  last_value :: "'w word"

text \<open>
  \<^verbatim>\<open>class Sonar : public Sensor { ... private: const byte pin_; unsigned int last_value_; };\<close>
\<close>

record (overloaded) 'w Sonar = Sensor +
  pin :: byte
  last_value :: "'w word"

text \<open>
  \<^verbatim>\<open>struct vector { vector() : x(0), y(0), z(0) {} float x, y, z; };\<close>
  The components are \<open>float\<close>s. No claim computes with them, so they are read as the
  real numbers they stand for; the constructor's \<open>0\<close> is exact in every float format.
\<close>

record vector =
  x :: real
  y :: real
  z :: real

definition vector_ctor :: vector where
  "vector_ctor = \<lparr>x = 0, y = 0, z = 0\<rparr>"

text \<open>
  \<^verbatim>\<open>class AMG : public Sensor { ... private: bool initialized_; L3G4200D gyro_; LSM303 compass_;
     vector a_; vector m_; vector g_; };\<close>
  The class is compiled only when \<open>USE_AMG\<close> is defined. The two driver classes come
  from other headers; their objects are the type parameters \<open>'g\<close> and \<open>'c\<close>.
\<close>

record ('g, 'c) AMG = Sensor +
  initialized :: bool
  gyro :: 'g
  compass :: 'c
  a :: vector
  m :: vector
  g :: vector

section \<open>Sensors.h: the member functions\<close>

text \<open>
  The interface of \<open>Sensor\<close>: \<^verbatim>\<open>virtual void read() = 0;\<close>,
  \<^verbatim>\<open>virtual char *get_data() = 0;\<close> and \<^verbatim>\<open>virtual ~Sensor();\<close>. A call runs on the
  object \<open>'s\<close> and on what it finds outside the object at that moment (the pins, the bus,
  the clock), the input \<open>'i\<close>. It either ends early (an abort, \<open>Inl\<close>) or returns its
  result with the object as the call left it. \<open>read\<close> and the destructor return
  nothing; \<open>get_data\<close> returns the text its \<open>char *\<close> points to.
\<close>

record ('s, 'i, 'e) Sensor_methods =
  read :: "'i \<Rightarrow> 's \<Rightarrow> 'e + unit \<times> 's"
  get_data :: "'i \<Rightarrow> 's \<Rightarrow> 'e + string \<times> 's"
  dtor :: "'i \<Rightarrow> 's \<Rightarrow> 'e + unit \<times> 's"

text \<open>
  A member function of \<open>Potentiometer\<close>, its body unknown. The body reads the whole
  object; it can assign \<open>prefix_\<close> (a non-const pointer) and \<open>last_value_\<close>, whose new
  values it hands back, and it cannot assign \<open>pin_\<close>, which is declared \<open>const\<close>.
\<close>

definition Potentiometer_member ::
  "('i \<Rightarrow> 'w Potentiometer \<Rightarrow> 'e + 'r \<times> string \<times> 'w word) \<Rightarrow>
   'i \<Rightarrow> ('w::len) Potentiometer \<Rightarrow> 'e + 'r \<times> 'w Potentiometer" where
  "Potentiometer_member body i s =
     (case body i s of
        Inl e \<Rightarrow> Inl e
      | Inr (r, p, v) \<Rightarrow> Inr (r, s\<lparr>prefix := p, Potentiometer.last_value := v\<rparr>))"

text \<open>The class \<open>Potentiometer\<close> with the three bodies of its implementation file.\<close>

definition Potentiometer_class ::
  "('i \<Rightarrow> 'w Potentiometer \<Rightarrow> 'e + unit \<times> string \<times> 'w word) \<Rightarrow>
   ('i \<Rightarrow> 'w Potentiometer \<Rightarrow> 'e + string \<times> string \<times> 'w word) \<Rightarrow>
   ('i \<Rightarrow> 'w Potentiometer \<Rightarrow> 'e + unit \<times> string \<times> 'w word) \<Rightarrow>
   (('w::len) Potentiometer, 'i, 'e) Sensor_methods" where
  "Potentiometer_class read_body get_data_body dtor_body =
     \<lparr>read = Potentiometer_member read_body,
      get_data = Potentiometer_member get_data_body,
      dtor = Potentiometer_member dtor_body\<rparr>"

text \<open>The same for \<open>Sonar\<close>, whose members are declared like \<open>Potentiometer\<close>'s.\<close>

definition Sonar_member ::
  "('i \<Rightarrow> 'w Sonar \<Rightarrow> 'e + 'r \<times> string \<times> 'w word) \<Rightarrow>
   'i \<Rightarrow> ('w::len) Sonar \<Rightarrow> 'e + 'r \<times> 'w Sonar" where
  "Sonar_member body i s =
     (case body i s of
        Inl e \<Rightarrow> Inl e
      | Inr (r, p, v) \<Rightarrow> Inr (r, s\<lparr>prefix := p, Sonar.last_value := v\<rparr>))"

definition Sonar_class ::
  "('i \<Rightarrow> 'w Sonar \<Rightarrow> 'e + unit \<times> string \<times> 'w word) \<Rightarrow>
   ('i \<Rightarrow> 'w Sonar \<Rightarrow> 'e + string \<times> string \<times> 'w word) \<Rightarrow>
   ('i \<Rightarrow> 'w Sonar \<Rightarrow> 'e + unit \<times> string \<times> 'w word) \<Rightarrow>
   (('w::len) Sonar, 'i, 'e) Sensor_methods" where
  "Sonar_class read_body get_data_body dtor_body =
     \<lparr>read = Sonar_member read_body,
      get_data = Sonar_member get_data_body,
      dtor = Sonar_member dtor_body\<rparr>"

text \<open>
  \<open>AMG\<close> has no const member: a body hands back the whole object.
  \<^verbatim>\<open>void init();\<close> is a member function of \<open>AMG\<close> only, outside the interface of
  \<open>Sensor\<close>; its input is \<open>'j\<close>. Its return type is \<open>void\<close>: a call that returns gives
  the caller the one value of \<open>unit\<close>.
\<close>

definition AMG_init ::
  "('j \<Rightarrow> ('g, 'c) AMG \<Rightarrow> 'e + ('g, 'c) AMG) \<Rightarrow>
   'j \<Rightarrow> ('g, 'c) AMG \<Rightarrow> 'e + unit \<times> ('g, 'c) AMG" where
  "AMG_init body j s = (case body j s of Inl e \<Rightarrow> Inl e | Inr t \<Rightarrow> Inr ((), t))"

definition AMG_class ::
  "('i \<Rightarrow> ('g, 'c) AMG \<Rightarrow> 'e + unit \<times> ('g, 'c) AMG) \<Rightarrow>
   ('i \<Rightarrow> ('g, 'c) AMG \<Rightarrow> 'e + string \<times> ('g, 'c) AMG) \<Rightarrow>
   ('i \<Rightarrow> ('g, 'c) AMG \<Rightarrow> 'e + unit \<times> ('g, 'c) AMG) \<Rightarrow>
   (('g, 'c) AMG, 'i, 'e) Sensor_methods" where
  "AMG_class read_body get_data_body dtor_body =
     \<lparr>read = read_body, get_data = get_data_body, dtor = dtor_body\<rparr>"

section \<open>Sequences of calls\<close>

text \<open>
  A caller polls a sensor through the interface: a sequence of calls of \<open>read\<close> and
  \<open>get_data\<close>, each with the input it meets. A call that ends early ends the sequence.
  The destructor runs last, once.
\<close>

datatype 'i call = Read 'i | Get_data 'i

definition call1 :: "('s, 'i, 'e) Sensor_methods \<Rightarrow> 'i call \<Rightarrow> 's \<Rightarrow> 'e + 's" where
  "call1 cls c s =
     (case c of
        Read i \<Rightarrow> (case read cls i s of Inl e \<Rightarrow> Inl e | Inr (_, t) \<Rightarrow> Inr t)
      | Get_data i \<Rightarrow> (case get_data cls i s of Inl e \<Rightarrow> Inl e | Inr (_, t) \<Rightarrow> Inr t))"

primrec run_calls :: "('s, 'i, 'e) Sensor_methods \<Rightarrow> 'i call list \<Rightarrow> 's \<Rightarrow> 'e + 's" where
  "run_calls cls [] s = Inr s"
| "run_calls cls (c # cs) s =
     (case call1 cls c s of Inl e \<Rightarrow> Inl e | Inr t \<Rightarrow> run_calls cls cs t)"

definition lifetime ::
  "('s, 'i, 'e) Sensor_methods \<Rightarrow> 'i call list \<Rightarrow> 'i \<Rightarrow> 's \<Rightarrow> 'e + 's" where
  "lifetime cls cs d s =
     (case run_calls cls cs s of
        Inl e \<Rightarrow> Inl e
      | Inr t \<Rightarrow> (case dtor cls d t of Inl e \<Rightarrow> Inl e | Inr (_, u) \<Rightarrow> Inr u))"

text \<open>
  What the caller holds after a call: the value it returned (or how it ended), and the
  object, unchanged when the call ended early.
\<close>

definition returned :: "'e + 'r \<times> 's \<Rightarrow> 'e + 'r" where
  "returned res = (case res of Inl e \<Rightarrow> Inl e | Inr (r, _) \<Rightarrow> Inr r)"

definition object_after :: "'s \<Rightarrow> 'e + 'r \<times> 's \<Rightarrow> 's" where
  "object_after s res = (case res of Inl _ \<Rightarrow> s | Inr (_, t) \<Rightarrow> t)"

text \<open>An \<open>AMG\<close> also takes calls of \<open>init\<close>.\<close>

datatype ('j, 'i) AMG_call = Init 'j | Sensor_call "'i call"

definition AMG_call1 ::
  "('j \<Rightarrow> ('g, 'c) AMG \<Rightarrow> 'e + ('g, 'c) AMG) \<Rightarrow> (('g, 'c) AMG, 'i, 'e) Sensor_methods \<Rightarrow>
   ('j, 'i) AMG_call \<Rightarrow> ('g, 'c) AMG \<Rightarrow> 'e + ('g, 'c) AMG" where
  "AMG_call1 init_body cls c s =
     (case c of
        Init j \<Rightarrow> (case AMG_init init_body j s of Inl e \<Rightarrow> Inl e | Inr (_, t) \<Rightarrow> Inr t)
      | Sensor_call d \<Rightarrow> call1 cls d s)"

primrec AMG_run ::
  "('j \<Rightarrow> ('g, 'c) AMG \<Rightarrow> 'e + ('g, 'c) AMG) \<Rightarrow> (('g, 'c) AMG, 'i, 'e) Sensor_methods \<Rightarrow>
   ('j, 'i) AMG_call list \<Rightarrow> ('g, 'c) AMG \<Rightarrow> 'e + ('g, 'c) AMG" where
  "AMG_run init_body cls [] s = Inr s"
| "AMG_run init_body cls (c # cs) s =
     (case AMG_call1 init_body cls c s of
        Inl e \<Rightarrow> Inl e
      | Inr t \<Rightarrow> AMG_run init_body cls cs t)"

section \<open>The bodies, from the specification\<close>

text \<open>
  Sensors.h declares the constructors and member functions of the three classes; their
  bodies are in the implementation file, which is not among the sources. The definitions
  of this section write the bodies down as the specification describes them.
\<close>

text \<open>
  Modelled from the spec: how \<open>get_data\<close> of \<open>Potentiometer\<close> and \<open>Sonar\<close> "formats
  \<open>last_value\<close> as text" (sections 4.2 and 4.3; the end-to-end scenarios expect "text
  representing 512"): the decimal digits of the unsigned value.
\<close>

fun decimal :: "nat \<Rightarrow> string" where
  "decimal n =
     (if n < 10 then [''0123456789'' ! n]
      else decimal (n div 10) @ [''0123456789'' ! (n mod 10)])"

text \<open>
  Modelled from the spec: the body of the constructor
  \<^verbatim>\<open>Potentiometer(const char *sensor_prefix, const byte potPin)\<close>. It binds the label
  and the channel (section 3); "before the first \<open>read()\<close>" the value of \<open>last_value\<close>
  "is undefined", so it is whatever \<open>v0\<close> the memory holds.
\<close>

definition Potentiometer_new :: "string \<Rightarrow> byte \<Rightarrow> 'w word \<Rightarrow> ('w::len) Potentiometer" where
  "Potentiometer_new sensor_prefix potPin v0 =
     \<lparr>prefix = sensor_prefix, Potentiometer.pin = potPin, Potentiometer.last_value = v0\<rparr>"

text \<open>
  Modelled from the spec: the body of \<open>Potentiometer::read\<close>, which "samples the channel,
  converts to an unsigned integer scale, stores as \<open>last_value\<close>" (section 4.2). The
  input \<open>i\<close> gives, for each channel, the converted sample a read of it yields now.
\<close>

definition Potentiometer_read_body ::
  "(byte \<Rightarrow> 'w word) \<Rightarrow> ('w::len) Potentiometer \<Rightarrow> 'e + unit \<times> string \<times> 'w word" where
  "Potentiometer_read_body i s = Inr ((), prefix s, i (Potentiometer.pin s))"

text \<open>
  Modelled from the spec: the body of \<open>Potentiometer::get_data\<close>, which "formats
  \<open>last_value\<close> as text into the reusable buffer and returns it" (section 4.2);
  \<open>last_value\<close> is "read (not mutated) by \<open>get_data()\<close>" (section 3).
\<close>

definition Potentiometer_get_data_body ::
  "(byte \<Rightarrow> 'w word) \<Rightarrow> ('w::len) Potentiometer \<Rightarrow> 'e + string \<times> string \<times> 'w word" where
  "Potentiometer_get_data_body i s =
     Inr (decimal (unat (Potentiometer.last_value s)), prefix s, Potentiometer.last_value s)"

text \<open>
  Modelled from the spec: the body of \<open>Potentiometer\<close>'s destructor, which "releases any
  sensor-owned resources; never throws/aborts" (section 4.1). The class owns none.
\<close>

definition Potentiometer_dtor_body ::
  "(byte \<Rightarrow> 'w word) \<Rightarrow> ('w::len) Potentiometer \<Rightarrow> 'e + unit \<times> string \<times> 'w word" where
  "Potentiometer_dtor_body i s = Inr ((), prefix s, Potentiometer.last_value s)"

text \<open>Modelled from the spec: the class \<open>Potentiometer\<close> with the three bodies above.\<close>

definition Potentiometer_spec ::
  "(('w::len) Potentiometer, byte \<Rightarrow> 'w word, 'e) Sensor_methods" where
  "Potentiometer_spec =
     Potentiometer_class Potentiometer_read_body Potentiometer_get_data_body
       Potentiometer_dtor_body"

text \<open>
  Modelled from the spec: the body of \<open>Sonar::read\<close>, which "triggers a measurement cycle
  and derives a distance/time value, stored as \<open>last_value\<close>", "treating a timeout as no
  echo and recording a sentinel (e.g., zero or maximum range)" (section 4.3). The input
  \<open>i\<close> gives, for each channel, the value an echo yields now, or \<open>None\<close> when none comes
  within the wait. The specification names no sentinel: it is the parameter \<open>sentinel\<close>.
\<close>

definition Sonar_read_body ::
  "'w word \<Rightarrow> (byte \<Rightarrow> 'w word option) \<Rightarrow> ('w::len) Sonar \<Rightarrow> 'e + unit \<times> string \<times> 'w word" where
  "Sonar_read_body sentinel i s =
     Inr ((), prefix s, (case i (Sonar.pin s) of Some d \<Rightarrow> d | None \<Rightarrow> sentinel))"

text \<open>
  Modelled from the spec: the body of \<open>Sonar::get_data\<close>, which "formats \<open>last_value\<close> as
  text" (section 4.3) and does not change it (section 3).
\<close>

definition Sonar_get_data_body ::
  "(byte \<Rightarrow> 'w word option) \<Rightarrow> ('w::len) Sonar \<Rightarrow> 'e + string \<times> string \<times> 'w word" where
  "Sonar_get_data_body i s =
     Inr (decimal (unat (Sonar.last_value s)), prefix s, Sonar.last_value s)"

text \<open>
  Modelled from the spec: the body of \<open>Sonar\<close>'s destructor, which "never throws/aborts"
  (section 4.1).
\<close>

definition Sonar_dtor_body ::
  "(byte \<Rightarrow> 'w word option) \<Rightarrow> ('w::len) Sonar \<Rightarrow> 'e + unit \<times> string \<times> 'w word" where
  "Sonar_dtor_body i s = Inr ((), prefix s, Sonar.last_value s)"

text \<open>Modelled from the spec: the class \<open>Sonar\<close> with the three bodies above.\<close>

definition Sonar_spec ::
  "'w word \<Rightarrow> (('w::len) Sonar, byte \<Rightarrow> 'w word option, 'e) Sensor_methods" where
  "Sonar_spec sentinel =
     Sonar_class (Sonar_read_body sentinel) Sonar_get_data_body Sonar_dtor_body"

text \<open>
  Modelled from the spec: the one way a call of the specified \<open>AMG\<close> ends early, the
  "use-before-init" of section 7.
\<close>

datatype error = Use_before_init

text \<open>
  Modelled from the spec: the two states of the \<open>AMG\<close> state machine (section 4.4),
  read off the flag \<open>initialized\<close>.
\<close>

datatype AMG_state = Uninitialized | Initialized

definition AMG_state_of :: "('g, 'c) AMG \<Rightarrow> AMG_state" where
  "AMG_state_of s = (if initialized s then Initialized else Uninitialized)"

text \<open>
  Modelled from the spec: the body of the constructor \<^verbatim>\<open>AMG(const char *sensor_prefix)\<close>,
  which "takes only a label; does not touch hardware" (section 4.4); the flag is "false
  until \<open>init()\<close> completes successfully" (section 3). The three vectors are built by
  \<open>vector()\<close>, the two driver objects \<open>gy\<close> and \<open>co\<close> by their own constructors.
\<close>

definition AMG_new :: "string \<Rightarrow> 'g \<Rightarrow> 'c \<Rightarrow> ('g, 'c) AMG" where
  "AMG_new sensor_prefix gy co =
     \<lparr>prefix = sensor_prefix, initialized = False, gyro = gy, compass = co,
      a = vector_ctor, m = vector_ctor, g = vector_ctor\<rparr>"

text \<open>
  Modelled from the spec: the body of \<open>AMG::init\<close>, which "performs one-time hardware
  bring-up" and "sets the initialized flag true on success" (section 4.4). The input
  \<open>ok\<close> tells whether the bring-up of the devices succeeds.
\<close>

definition AMG_init_body :: "bool \<Rightarrow> ('g, 'c) AMG \<Rightarrow> error + ('g, 'c) AMG" where
  "AMG_init_body ok s = Inr (if ok then s\<lparr>initialized := True\<rparr> else s)"

text \<open>
  Modelled from the spec: the body of \<open>AMG::read\<close>, which "reads all three sub-device
  outputs and stores them into the three owned vectors"; "calling before \<open>init()\<close>
  succeeds is an error condition" (section 4.4). The input is the three outputs the
  devices deliver now.
\<close>

definition AMG_read_body ::
  "vector \<times> vector \<times> vector \<Rightarrow> ('g, 'c) AMG \<Rightarrow> error + unit \<times> ('g, 'c) AMG" where
  "AMG_read_body smp s =
     (if initialized s
      then Inr ((), s\<lparr>a := fst smp, m := fst (snd smp), g := snd (snd smp)\<rparr>)
      else Inl Use_before_init)"

text \<open>
  Modelled from the spec: the body of \<open>AMG::get_data\<close>, which "formats all nine scalar
  components (three vectors) into the reusable buffer" and is a defined operation "only
  in state Initialized" (section 4.4). The specification gives no format for the
  \<open>float\<close>s: it is the parameter \<open>fmt\<close>.
\<close>

definition AMG_get_data_body ::
  "(vector \<Rightarrow> vector \<Rightarrow> vector \<Rightarrow> string) \<Rightarrow>
   vector \<times> vector \<times> vector \<Rightarrow> ('g, 'c) AMG \<Rightarrow> error + string \<times> ('g, 'c) AMG" where
  "AMG_get_data_body fmt smp s =
     (if initialized s then Inr (fmt (a s) (m s) (g s), s) else Inl Use_before_init)"

text \<open>
  Modelled from the spec: the body of \<open>AMG\<close>'s destructor, which "never throws/aborts"
  (section 4.1).
\<close>

definition AMG_dtor_body ::
  "vector \<times> vector \<times> vector \<Rightarrow> ('g, 'c) AMG \<Rightarrow> error + unit \<times> ('g, 'c) AMG" where
  "AMG_dtor_body smp s = Inr ((), s)"

text \<open>Modelled from the spec: the class \<open>AMG\<close> with the three bodies above.\<close>

definition AMG_spec ::
  "(vector \<Rightarrow> vector \<Rightarrow> vector \<Rightarrow> string) \<Rightarrow>
   (('g, 'c) AMG, vector \<times> vector \<times> vector, error) Sensor_methods" where
  "AMG_spec fmt = AMG_class AMG_read_body (AMG_get_data_body fmt) AMG_dtor_body"

section \<open>What the declarations settle\<close>

text \<open>
  The theorems of this section hold for every body the implementation file may give the
  member functions: they rest on the declarations of Sensors.h alone.
\<close>

lemma Potentiometer_member_pin:
  "Potentiometer_member body i s = Inr (r, t) \<Longrightarrow> Potentiometer.pin t = Potentiometer.pin s"
  by (auto simp: Potentiometer_member_def split: sum.splits prod.splits)

lemma Sonar_member_pin:
  "Sonar_member body i s = Inr (r, t) \<Longrightarrow> Sonar.pin t = Sonar.pin s"
  by (auto simp: Sonar_member_def split: sum.splits prod.splits)

lemma call1_Potentiometer_pin:
  "call1 (Potentiometer_class rb gb db) c s = Inr t \<Longrightarrow>
   Potentiometer.pin t = Potentiometer.pin s"
  by (cases c)
     (auto simp: call1_def Potentiometer_class_def split: sum.splits prod.splits
           dest: Potentiometer_member_pin)

lemma call1_Sonar_pin:
  "call1 (Sonar_class rb gb db) c s = Inr t \<Longrightarrow> Sonar.pin t = Sonar.pin s"
  by (cases c)
     (auto simp: call1_def Sonar_class_def split: sum.splits prod.splits
           dest: Sonar_member_pin)

lemma run_calls_Potentiometer_pin:
  "run_calls (Potentiometer_class rb gb db) cs s = Inr t \<Longrightarrow>
   Potentiometer.pin t = Potentiometer.pin s"
proof (induction cs arbitrary: s)
  case Nil
  then show ?case by simp
next
  case (Cons c cs)
  from Cons.prems obtain u where
    step: "call1 (Potentiometer_class rb gb db) c s = Inr u" and
    rest: "run_calls (Potentiometer_class rb gb db) cs u = Inr t"
    by (auto split: sum.splits)
  from Cons.IH [OF rest] call1_Potentiometer_pin [OF step] show ?case by simp
qed

lemma run_calls_Sonar_pin:
  "run_calls (Sonar_class rb gb db) cs s = Inr t \<Longrightarrow> Sonar.pin t = Sonar.pin s"
proof (induction cs arbitrary: s)
  case Nil
  then show ?case by simp
next
  case (Cons c cs)
  from Cons.prems obtain u where
    step: "call1 (Sonar_class rb gb db) c s = Inr u" and
    rest: "run_calls (Sonar_class rb gb db) cs u = Inr t"
    by (auto split: sum.splits)
  from Cons.IH [OF rest] call1_Sonar_pin [OF step] show ?case by simp
qed

lemma lifetime_Potentiometer_pin:
  "lifetime (Potentiometer_class rb gb db) cs d s = Inr t \<Longrightarrow>
   Potentiometer.pin t = Potentiometer.pin s"
  by (auto simp: lifetime_def Potentiometer_class_def split: sum.splits prod.splits
        dest!: Potentiometer_member_pin
        dest: run_calls_Potentiometer_pin [unfolded Potentiometer_class_def])

lemma lifetime_Sonar_pin:
  "lifetime (Sonar_class rb gb db) cs d s = Inr t \<Longrightarrow> Sonar.pin t = Sonar.pin s"
  by (auto simp: lifetime_def Sonar_class_def split: sum.splits prod.splits
        dest!: Sonar_member_pin
        dest: run_calls_Sonar_pin [unfolded Sonar_class_def])

text \<open>
  C8. Every newly constructed three-axis vector (the type of the members \<open>a_\<close>, \<open>m_\<close>
  and \<open>g_\<close> of \<open>AMG\<close>) has all three components \<open>x\<close>, \<open>y\<close>, \<open>z\<close> equal to zero:
  \<^verbatim>\<open>vector() : x(0), y(0), z(0) {}\<close>.
\<close>

theorem vector_ctor_zero:
  "x vector_ctor = 0 \<and> y vector_ctor = 0 \<and> z vector_ctor = 0"
  by (simp add: vector_ctor_def)

text \<open>
  C10. For every \<open>Potentiometer\<close> and every \<open>Sonar\<close>, after any sequence of calls,
  whatever their bodies, the stored reading \<open>last_value_\<close> is a non-negative integer
  below \<open>2 ^ w\<close>, where \<open>w\<close> is the width of \<open>unsigned int\<close>: the member is of an
  unsigned type, so no call can store a negative reading.
\<close>

theorem last_value_unsigned:
  "(run_calls (Potentiometer_class rb gb db) cs s = Inr t \<longrightarrow>
      0 \<le> uint (Potentiometer.last_value t) \<and>
      uint (Potentiometer.last_value t) < 2 ^ LENGTH('w)) \<and>
   (run_calls (Sonar_class rb' gb' db') cs' u = Inr w \<longrightarrow>
      0 \<le> uint (Sonar.last_value w) \<and>
      uint (Sonar.last_value w) < 2 ^ LENGTH('w))"
  for t :: "('w::len) Potentiometer" and w :: "'w Sonar"
  by simp

text \<open>
  The theorem at a body of \<open>read\<close> that counts \<open>last_value_\<close> down from \<open>0\<close>, on a board
  with 16-bit \<open>unsigned int\<close>: the member holds \<open>65535\<close>, not \<open>-1\<close>.
\<close>

theorem last_value_unsigned_witness:
  "run_calls
     (Potentiometer_class (\<lambda>i s. Inr ((), prefix s, Potentiometer.last_value s - 1))
        (\<lambda>i s. Inr ([], prefix s, Potentiometer.last_value s))
        (\<lambda>i s. Inr ((), prefix s, Potentiometer.last_value s))
      :: (16 Potentiometer, unit, unit) Sensor_methods)
     [Read ()]
     \<lparr>prefix = ''pot'', Potentiometer.pin = 3, Potentiometer.last_value = 0\<rparr>
   = Inr \<lparr>prefix = ''pot'', Potentiometer.pin = 3, Potentiometer.last_value = 65535\<rparr> \<and>
   0 \<le> uint (Potentiometer.last_value
     \<lparr>prefix = ''pot'', Potentiometer.pin = 3, Potentiometer.last_value = (65535 :: 16 word)\<rparr>) \<and>
   uint (Potentiometer.last_value
     \<lparr>prefix = ''pot'', Potentiometer.pin = 3, Potentiometer.last_value = (65535 :: 16 word)\<rparr>)
     < 2 ^ LENGTH(16) \<and>
   run_calls
     (Sonar_class (\<lambda>i s. Inr ((), prefix s, Sonar.last_value s - 1))
        (\<lambda>i s. Inr ([], prefix s, Sonar.last_value s))
        (\<lambda>i s. Inr ((), prefix s, Sonar.last_value s))
      :: (16 Sonar, unit, unit) Sensor_methods)
     [Read ()]
     \<lparr>prefix = ''sonar'', Sonar.pin = 7, Sonar.last_value = 0\<rparr>
   = Inr \<lparr>prefix = ''sonar'', Sonar.pin = 7, Sonar.last_value = 65535\<rparr> \<and>
   0 \<le> uint (Sonar.last_value
     \<lparr>prefix = ''sonar'', Sonar.pin = 7, Sonar.last_value = (65535 :: 16 word)\<rparr>) \<and>
   uint (Sonar.last_value
     \<lparr>prefix = ''sonar'', Sonar.pin = 7, Sonar.last_value = (65535 :: 16 word)\<rparr>)
     < 2 ^ LENGTH(16)"
  using last_value_unsigned
    [where rb = "\<lambda>i s. Inr ((), prefix s, Potentiometer.last_value s - 1)"
      and gb = "\<lambda>i s. Inr ([], prefix s, Potentiometer.last_value s)"
      and db = "\<lambda>i s. Inr ((), prefix s, Potentiometer.last_value s)"
      and cs = "[Read ()]"
      and s = "\<lparr>prefix = ''pot'', Potentiometer.pin = 3, Potentiometer.last_value = (0 :: 16 word)\<rparr>"
      and t = "\<lparr>prefix = ''pot'', Potentiometer.pin = 3, Potentiometer.last_value = 65535\<rparr>"
      and rb' = "\<lambda>i s. Inr ((), prefix s, Sonar.last_value s - 1)"
      and gb' = "\<lambda>i s. Inr ([], prefix s, Sonar.last_value s)"
      and db' = "\<lambda>i s. Inr ((), prefix s, Sonar.last_value s)"
      and cs' = "[Read ()]"
      and u = "\<lparr>prefix = ''sonar'', Sonar.pin = 7, Sonar.last_value = 0\<rparr>"
      and w = "\<lparr>prefix = ''sonar'', Sonar.pin = 7, Sonar.last_value = 65535\<rparr>"]
  by (simp add: Potentiometer_class_def Potentiometer_member_def Sonar_class_def
        Sonar_member_def call1_def)

text \<open>
  C7. For every \<open>Potentiometer\<close> and every \<open>Sonar\<close>, the channel \<open>pin_\<close> bound at
  construction is never reassigned. Here \<open>s\<close> (and \<open>u\<close>) is the object as its constructor
  left it, with \<open>pin_\<close> bound to the constructor's argument \<open>potPin\<close> (\<open>sonarPin\<close>): after
  any sequence of calls of \<open>read\<close> and \<open>get_data\<close>, and at the end of the destructor
  after them, whatever the bodies, \<open>pin_\<close> still equals that argument.
\<close>

theorem pin_never_reassigned:
  "(Potentiometer.pin s = potPin \<and> run_calls (Potentiometer_class rb gb db) cs s = Inr t
      \<longrightarrow> Potentiometer.pin t = potPin) \<and>
   (Potentiometer.pin s = potPin \<and> lifetime (Potentiometer_class rb gb db) cs d s = Inr t'
      \<longrightarrow> Potentiometer.pin t' = potPin) \<and>
   (Sonar.pin u = sonarPin \<and> run_calls (Sonar_class rb' gb' db') cs' u = Inr w
      \<longrightarrow> Sonar.pin w = sonarPin) \<and>
   (Sonar.pin u = sonarPin \<and> lifetime (Sonar_class rb' gb' db') cs' d' u = Inr w'
      \<longrightarrow> Sonar.pin w' = sonarPin)"
  using run_calls_Potentiometer_pin [of rb gb db cs s t]
    lifetime_Potentiometer_pin [of rb gb db cs d s t']
    run_calls_Sonar_pin [of rb' gb' db' cs' u w]
    lifetime_Sonar_pin [of rb' gb' db' cs' d' u w']
  by blast

text \<open>
  The theorem at a \<open>Potentiometer\<close> on channel 3 and a \<open>Sonar\<close> on channel 7, with bodies
  that overwrite the two members they can assign.
\<close>

theorem pin_never_reassigned_witness:
  "run_calls
     (Potentiometer_class (\<lambda>i s. Inr ((), ''p'', i)) (\<lambda>i s. Inr (''txt'', prefix s, 0))
        (\<lambda>i s. Inr ((), [], 1)) :: (16 Potentiometer, 16 word, unit) Sensor_methods)
     [Read 512, Get_data 0]
     \<lparr>prefix = ''pot'', Potentiometer.pin = 3, Potentiometer.last_value = 7\<rparr>
   = Inr \<lparr>prefix = ''p'', Potentiometer.pin = 3, Potentiometer.last_value = 0\<rparr> \<and>
   lifetime
     (Potentiometer_class (\<lambda>i s. Inr ((), ''p'', i)) (\<lambda>i s. Inr (''txt'', prefix s, 0))
        (\<lambda>i s. Inr ((), [], 1)) :: (16 Potentiometer, 16 word, unit) Sensor_methods)
     [Read 512, Get_data 0] 0
     \<lparr>prefix = ''pot'', Potentiometer.pin = 3, Potentiometer.last_value = 7\<rparr>
   = Inr \<lparr>prefix = [], Potentiometer.pin = 3, Potentiometer.last_value = 1\<rparr> \<and>
   run_calls
     (Sonar_class (\<lambda>i s. Inr ((), ''s'', i)) (\<lambda>i s. Inr (''txt'', prefix s, 0))
        (\<lambda>i s. Inr ((), [], 1)) :: (16 Sonar, 16 word, unit) Sensor_methods)
     [Read 150, Get_data 0]
     \<lparr>prefix = ''sonar'', Sonar.pin = 7, Sonar.last_value = 9\<rparr>
   = Inr \<lparr>prefix = ''s'', Sonar.pin = 7, Sonar.last_value = 0\<rparr> \<and>
   lifetime
     (Sonar_class (\<lambda>i s. Inr ((), ''s'', i)) (\<lambda>i s. Inr (''txt'', prefix s, 0))
        (\<lambda>i s. Inr ((), [], 1)) :: (16 Sonar, 16 word, unit) Sensor_methods)
     [Read 150, Get_data 0] 0
     \<lparr>prefix = ''sonar'', Sonar.pin = 7, Sonar.last_value = 9\<rparr>
   = Inr \<lparr>prefix = [], Sonar.pin = 7, Sonar.last_value = 1\<rparr>"
  using pin_never_reassigned
    [where s = "\<lparr>prefix = ''pot'', Potentiometer.pin = 3, Potentiometer.last_value = (7 :: 16 word)\<rparr>"
      and potPin = 3 and cs = "[Read 512, Get_data 0]" and d = 0
      and rb = "\<lambda>i s. Inr ((), ''p'', i)" and gb = "\<lambda>i s. Inr (''txt'', prefix s, 0)"
      and db = "\<lambda>i s. Inr ((), [], 1)"
      and t = "\<lparr>prefix = ''p'', Potentiometer.pin = 3, Potentiometer.last_value = 0\<rparr>"
      and t' = "\<lparr>prefix = [], Potentiometer.pin = 3, Potentiometer.last_value = 1\<rparr>"
      and u = "\<lparr>prefix = ''sonar'', Sonar.pin = 7, Sonar.last_value = (9 :: 16 word)\<rparr>"
      and sonarPin = 7 and cs' = "[Read 150, Get_data 0]" and d' = 0
      and rb' = "\<lambda>i s. Inr ((), ''s'', i)" and gb' = "\<lambda>i s. Inr (''txt'', prefix s, 0)"
      and db' = "\<lambda>i s. Inr ((), [], 1)"
      and w = "\<lparr>prefix = ''s'', Sonar.pin = 7, Sonar.last_value = 0\<rparr>"
      and w' = "\<lparr>prefix = [], Sonar.pin = 7, Sonar.last_value = 1\<rparr>"]
  by (simp add: Potentiometer_class_def Potentiometer_member_def Sonar_class_def
        Sonar_member_def call1_def lifetime_def)




section \<open>What the specified bodies do\<close>

text \<open>The calls of the three specified classes, computed.\<close>

lemma Potentiometer_spec_read:
  "read Potentiometer_spec i s =
     Inr ((), s\<lparr>Potentiometer.last_value := i (Potentiometer.pin s)\<rparr>)"
  by (simp add: Potentiometer_spec_def Potentiometer_class_def Potentiometer_member_def
        Potentiometer_read_body_def)

lemma Potentiometer_spec_get_data:
  "get_data Potentiometer_spec i s = Inr (decimal (unat (Potentiometer.last_value s)), s)"
  by (simp add: Potentiometer_spec_def Potentiometer_class_def Potentiometer_member_def
        Potentiometer_get_data_body_def)

lemma Sonar_spec_read:
  "read (Sonar_spec sentinel) i s =
     Inr ((), s\<lparr>Sonar.last_value := (case i (Sonar.pin s) of Some d \<Rightarrow> d | None \<Rightarrow> sentinel)\<rparr>)"
  by (simp add: Sonar_spec_def Sonar_class_def Sonar_member_def Sonar_read_body_def)

lemma Sonar_spec_get_data:
  "get_data (Sonar_spec sentinel) i s = Inr (decimal (unat (Sonar.last_value s)), s)"
  by (simp add: Sonar_spec_def Sonar_class_def Sonar_member_def Sonar_get_data_body_def)

lemma AMG_spec_read:
  "read (AMG_spec fmt) smp s =
     (if initialized s
      then Inr ((), s\<lparr>a := fst smp, m := fst (snd smp), g := snd (snd smp)\<rparr>)
      else Inl Use_before_init)"
  by (simp add: AMG_spec_def AMG_class_def AMG_read_body_def)

lemma AMG_spec_get_data:
  "get_data (AMG_spec fmt) smp s =
     (if initialized s then Inr (fmt (a s) (m s) (g s), s) else Inl Use_before_init)"
  by (simp add: AMG_spec_def AMG_class_def AMG_get_data_body_def)

lemma run_calls_Get_data_Potentiometer:
  "run_calls Potentiometer_spec (map Get_data js) s = Inr s"
  by (induction js) (simp_all add: call1_def Potentiometer_spec_get_data)

lemma run_calls_Get_data_Sonar:
  "run_calls (Sonar_spec sentinel) (map Get_data js) s = Inr s"
  by (induction js) (simp_all add: call1_def Sonar_spec_get_data)

lemma AMG_init_spec_again:
  "initialized s \<Longrightarrow> AMG_init AMG_init_body ok s = Inr ((), s)"
  by (cases s) (simp add: AMG_init_def AMG_init_body_def)

text \<open>Calls of \<open>init\<close> and \<open>get_data\<close>, in any order, leave an initialised \<open>AMG\<close> as it is.\<close>

lemma AMG_run_no_Read:
  "initialized s \<Longrightarrow>
   AMG_run AMG_init_body (AMG_spec fmt)
     (map (\<lambda>e. case e of Inl ok \<Rightarrow> Init ok | Inr k \<Rightarrow> Sensor_call (Get_data k)) es) s = Inr s"
  by (induction es)
     (auto simp: AMG_call1_def AMG_init_spec_again call1_def AMG_spec_get_data
        split: sum.splits)

lemma AMG_call1_spec_keeps_initialized:
  "initialized s \<Longrightarrow> AMG_call1 AMG_init_body (AMG_spec fmt) c s = Inr t \<Longrightarrow> initialized t"
  by (cases c)
     (auto simp: AMG_call1_def AMG_init_def AMG_init_body_def call1_def AMG_spec_read
        AMG_spec_get_data split: call.splits if_splits)

lemma AMG_run_spec_keeps_initialized:
  "initialized s \<Longrightarrow> AMG_run AMG_init_body (AMG_spec fmt) cs s = Inr t \<Longrightarrow> initialized t"
proof (induction cs arbitrary: s)
  case Nil
  then show ?case by simp
next
  case (Cons c cs)
  from Cons.prems(2) obtain u where
    step: "AMG_call1 AMG_init_body (AMG_spec fmt) c s = Inr u" and
    rest: "AMG_run AMG_init_body (AMG_spec fmt) cs u = Inr t"
    by (auto split: sum.splits)
  from AMG_call1_spec_keeps_initialized [OF Cons.prems(1) step] rest
  show ?case by (rule Cons.IH)
qed

lemma AMG_call1_spec_becomes_initialized:
  "\<not> initialized s \<Longrightarrow> AMG_call1 AMG_init_body (AMG_spec fmt) c s = Inr t \<Longrightarrow>
   initialized t \<Longrightarrow> c = Init True"
  by (cases c)
     (auto simp: AMG_call1_def AMG_init_def AMG_init_body_def call1_def AMG_spec_read
        AMG_spec_get_data split: call.splits if_splits)

text \<open>\<open>decimal\<close> writes different numbers differently.\<close>

lemma digit_inj:
  "k < 10 \<Longrightarrow> l < 10 \<Longrightarrow> ''0123456789'' ! k = ''0123456789'' ! l \<Longrightarrow> k = l"
proof -
  have "distinct ''0123456789''" by simp
  moreover have "length ''0123456789'' = 10" by simp
  ultimately show "k < 10 \<Longrightarrow> l < 10 \<Longrightarrow> ''0123456789'' ! k = ''0123456789'' ! l \<Longrightarrow> k = l"
    by (metis nth_eq_iff_index_eq)
qed

lemma decimal_nonempty: "decimal n \<noteq> []"
  by (subst decimal.simps) simp

lemma decimal_last: "last (decimal n) = ''0123456789'' ! (n mod 10)"
  by (subst decimal.simps) simp

lemma decimal_butlast: "butlast (decimal n) = (if n < 10 then [] else decimal (n div 10))"
  by (subst decimal.simps) simp

lemma decimal_inj: "decimal k = decimal l \<Longrightarrow> k = l"
proof (induction k arbitrary: l rule: less_induct)
  case (less k)
  from less.prems have lst: "k mod 10 = l mod 10"
    using digit_inj [of "k mod 10" "l mod 10"] decimal_last [of k] decimal_last [of l] by simp
  from less.prems have bl: "butlast (decimal k) = butlast (decimal l)" by simp
  show ?case
  proof (cases "k < 10")
    case True
    with bl have "l < 10"
      using decimal_nonempty [of "l div 10"] by (auto simp: decimal_butlast split: if_splits)
    with True lst show ?thesis by simp
  next
    case False
    with bl have l10: "\<not> l < 10"
      using decimal_nonempty [of "k div 10"] by (auto simp: decimal_butlast split: if_splits)
    with False bl have "decimal (k div 10) = decimal (l div 10)"
      by (simp add: decimal_butlast)
    moreover from False have "k div 10 < k" by simp
    ultimately have "k div 10 = l div 10" by (rule less.IH [rotated])
    with lst show ?thesis by (metis div_mult_mod_eq)
  qed
qed

text \<open>
  C1, for the specified bodies. For each of the three sensors, \<open>get_data\<close> after a
  \<open>read\<close> returns the text of exactly what that \<open>read\<close> stored, whatever the object
  held before, and however often \<open>get_data\<close> (for \<open>AMG\<close>: \<open>get_data\<close> or \<open>init\<close>) was
  called in between:
  \<^item> a \<open>Potentiometer\<close> returns the decimal digits of the sample of its channel;
  \<^item> a \<open>Sonar\<close> returns the decimal digits of the echo's value, or of the sentinel;
  \<^item> an initialised \<open>AMG\<close> returns the three vectors the devices delivered, formatted;
  \<^item> a \<open>Potentiometer\<close> built with any label and channel, after a \<open>read\<close> that samples
    512 on its channel, returns the text \<open>512\<close>;
  \<^item> the text of a \<open>Potentiometer\<close> or \<open>Sonar\<close> tells the reading: two calls return
    the same text only when the stored readings are equal.
\<close>

theorem get_data_reflects_last_read:
  "(\<exists>t. run_calls Potentiometer_spec (Read i # map Get_data js) s = Inr t \<and>
        get_data Potentiometer_spec j t
          = Inr (decimal (unat (i (Potentiometer.pin s))), t)) \<and>
   (\<exists>t. run_calls (Sonar_spec sentinel) (Read i' # map Get_data js') u = Inr t \<and>
        get_data (Sonar_spec sentinel) j' t
          = Inr (decimal (unat (case i' (Sonar.pin u) of Some d \<Rightarrow> d | None \<Rightarrow> sentinel)), t)) \<and>
   (initialized w \<longrightarrow>
    (\<exists>t. AMG_run AMG_init_body (AMG_spec fmt)
           (Sensor_call (Read (va, vm, vg)) #
            map (\<lambda>e. case e of Inl ok \<Rightarrow> Init ok | Inr k \<Rightarrow> Sensor_call (Get_data k)) es) w
           = Inr t \<and>
         get_data (AMG_spec fmt) k' t = Inr (fmt va vm vg, t))) \<and>
   (unat (i0 n) = 512 \<longrightarrow>
    (\<exists>t. run_calls Potentiometer_spec [Read i0] (Potentiometer_new p n v0) = Inr t \<and>
         get_data Potentiometer_spec j0 t = Inr (''512'', t))) \<and>
   (returned (get_data Potentiometer_spec j1 s1) = returned (get_data Potentiometer_spec j2 s2)
      \<longrightarrow> Potentiometer.last_value s1 = Potentiometer.last_value s2) \<and>
   (returned (get_data (Sonar_spec sentinel) j3 u1) = returned (get_data (Sonar_spec sentinel) j4 u2)
      \<longrightarrow> Sonar.last_value u1 = Sonar.last_value u2)"
proof (intro conjI impI)
  show "\<exists>t. run_calls Potentiometer_spec (Read i # map Get_data js) s = Inr t \<and>
        get_data Potentiometer_spec j t = Inr (decimal (unat (i (Potentiometer.pin s))), t)"
    by (simp add: call1_def Potentiometer_spec_read run_calls_Get_data_Potentiometer
          Potentiometer_spec_get_data)
next
  show "\<exists>t. run_calls (Sonar_spec sentinel) (Read i' # map Get_data js') u = Inr t \<and>
        get_data (Sonar_spec sentinel) j' t
          = Inr (decimal (unat (case i' (Sonar.pin u) of Some d \<Rightarrow> d | None \<Rightarrow> sentinel)), t)"
    by (simp add: call1_def Sonar_spec_read run_calls_Get_data_Sonar Sonar_spec_get_data)
next
  assume init: "initialized w"
  let ?w' = "w\<lparr>a := va, m := vm, g := vg\<rparr>"
  have "initialized ?w'" using init by simp
  from AMG_run_no_Read [OF this, of fmt es] init
  show "\<exists>t. AMG_run AMG_init_body (AMG_spec fmt)
           (Sensor_call (Read (va, vm, vg)) #
            map (\<lambda>e. case e of Inl ok \<Rightarrow> Init ok | Inr k \<Rightarrow> Sensor_call (Get_data k)) es) w
           = Inr t \<and>
         get_data (AMG_spec fmt) k' t = Inr (fmt va vm vg, t)"
    by (simp add: AMG_call1_def call1_def AMG_spec_read AMG_spec_get_data)
next
  assume "unat (i0 n) = 512"
  then show "\<exists>t. run_calls Potentiometer_spec [Read i0] (Potentiometer_new p n v0) = Inr t \<and>
         get_data Potentiometer_spec j0 t = Inr (''512'', t)"
    by (simp add: call1_def Potentiometer_spec_read Potentiometer_spec_get_data
          Potentiometer_new_def)
next
  assume "returned (get_data Potentiometer_spec j1 s1)
    = returned (get_data Potentiometer_spec j2 s2)"
  then have "unat (Potentiometer.last_value s1) = unat (Potentiometer.last_value s2)"
    by (simp add: Potentiometer_spec_get_data returned_def decimal_inj)
  then show "Potentiometer.last_value s1 = Potentiometer.last_value s2"
    by (simp add: word_unat_eq_iff)
next
  assume "returned (get_data (Sonar_spec sentinel) j3 u1)
    = returned (get_data (Sonar_spec sentinel) j4 u2)"
  then have "unat (Sonar.last_value u1) = unat (Sonar.last_value u2)"
    by (simp add: Sonar_spec_get_data returned_def decimal_inj)
  then show "Sonar.last_value u1 = Sonar.last_value u2"
    by (simp add: word_unat_eq_iff)
qed

text \<open>
  The theorem on a board with 16-bit \<open>unsigned int\<close>: the scenario
  \<open>Potentiometer("pot", 3)\<close> with 512 on channel 3, a \<open>Sonar\<close> on channel 7 with an echo
  of 150, and an initialised \<open>AMG\<close>.
\<close>

theorem get_data_reflects_last_read_witness:
  "initialized ((AMG_new ''imu'' () ())\<lparr>initialized := True\<rparr>) \<and>
   AMG_run AMG_init_body (AMG_spec (\<lambda>p q r. if x p = 1 then ''one'' else ''other''))
     [Sensor_call (Read (vector_ctor\<lparr>x := 1\<rparr>, vector_ctor, vector_ctor)),
      Init False, Sensor_call (Get_data (vector_ctor, vector_ctor, vector_ctor))]
     ((AMG_new ''imu'' () ())\<lparr>initialized := True\<rparr>)
   = Inr ((AMG_new ''imu'' () ())\<lparr>initialized := True, a := vector_ctor\<lparr>x := 1\<rparr>\<rparr>) \<and>
   get_data (AMG_spec (\<lambda>p q r. if x p = 1 then ''one'' else ''other''))
     (vector_ctor, vector_ctor, vector_ctor)
     ((AMG_new ''imu'' () ())\<lparr>initialized := True, a := vector_ctor\<lparr>x := 1\<rparr>\<rparr>)
   = Inr (''one'', (AMG_new ''imu'' () ())\<lparr>initialized := True, a := vector_ctor\<lparr>x := 1\<rparr>\<rparr>) \<and>
   unat (((\<lambda>_. 0)(3 := 512)) 3 :: 16 word) = 512 \<and>
   run_calls (Potentiometer_spec :: (16 Potentiometer, byte \<Rightarrow> 16 word, unit) Sensor_methods)
     [Read ((\<lambda>_. 0)(3 := 512))] (Potentiometer_new ''pot'' 3 7)
   = Inr \<lparr>prefix = ''pot'', Potentiometer.pin = 3, Potentiometer.last_value = 512\<rparr> \<and>
   get_data (Potentiometer_spec :: (16 Potentiometer, byte \<Rightarrow> 16 word, unit) Sensor_methods)
     (\<lambda>_. 0) \<lparr>prefix = ''pot'', Potentiometer.pin = 3, Potentiometer.last_value = 512\<rparr>
   = Inr (''512'', \<lparr>prefix = ''pot'', Potentiometer.pin = 3, Potentiometer.last_value = 512\<rparr>) \<and>
   run_calls (Sonar_spec 0 :: (16 Sonar, byte \<Rightarrow> 16 word option, unit) Sensor_methods)
     [Read ((\<lambda>_. None)(7 := Some 150)), Get_data (\<lambda>_. None)]
     \<lparr>prefix = ''sonar'', Sonar.pin = 7, Sonar.last_value = 9\<rparr>
   = Inr \<lparr>prefix = ''sonar'', Sonar.pin = 7, Sonar.last_value = 150\<rparr> \<and>
   get_data (Sonar_spec 0 :: (16 Sonar, byte \<Rightarrow> 16 word option, unit) Sensor_methods)
     (\<lambda>_. None) \<lparr>prefix = ''sonar'', Sonar.pin = 7, Sonar.last_value = 150\<rparr>
   = Inr (''150'', \<lparr>prefix = ''sonar'', Sonar.pin = 7, Sonar.last_value = 150\<rparr>) \<and>
   returned (get_data (Potentiometer_spec :: (16 Potentiometer, byte \<Rightarrow> 16 word, unit) Sensor_methods)
     (\<lambda>_. 0) \<lparr>prefix = ''pot'', Potentiometer.pin = 3, Potentiometer.last_value = 512\<rparr>)
   = returned (get_data (Potentiometer_spec :: (16 Potentiometer, byte \<Rightarrow> 16 word, unit) Sensor_methods)
     (\<lambda>_. 1) \<lparr>prefix = ''other'', Potentiometer.pin = 4, Potentiometer.last_value = 512\<rparr>) \<and>
   returned (get_data (Sonar_spec 0 :: (16 Sonar, byte \<Rightarrow> 16 word option, unit) Sensor_methods)
     (\<lambda>_. None) \<lparr>prefix = ''sonar'', Sonar.pin = 7, Sonar.last_value = 150\<rparr>)
   = returned (get_data (Sonar_spec 0 :: (16 Sonar, byte \<Rightarrow> 16 word option, unit) Sensor_methods)
     (\<lambda>_. Some 1) \<lparr>prefix = ''other'', Sonar.pin = 8, Sonar.last_value = 150\<rparr>)"
  using get_data_reflects_last_read
    [where w = "(AMG_new ''imu'' () ())\<lparr>initialized := True\<rparr>"
      and fmt = "\<lambda>p q r. if x p = 1 then ''one'' else ''other''"
      and va = "vector_ctor\<lparr>x := 1\<rparr>" and vm = vector_ctor and vg = vector_ctor
      and es = "[Inl False, Inr (vector_ctor, vector_ctor, vector_ctor)]"
      and k' = "(vector_ctor, vector_ctor, vector_ctor)"
      and ?i0.0 = "(\<lambda>_. 0)(3 := 512) :: byte \<Rightarrow> 16 word" and n = 3 and p = "''pot''"
      and ?v0.0 = 7 and ?j0.0 = "\<lambda>_. 0"
      and i = "(\<lambda>_. 0)(3 := 512) :: byte \<Rightarrow> 16 word" and js = "[]" and j = "\<lambda>_. 0"
      and s = "Potentiometer_new ''pot'' 3 7"
      and sentinel = "0 :: 16 word" and i' = "(\<lambda>_. None)(7 := Some 150)"
      and js' = "[\<lambda>_. None]" and j' = "\<lambda>_. None"
      and u = "\<lparr>prefix = ''sonar'', Sonar.pin = 7, Sonar.last_value = 9\<rparr>"
      and ?j1.0 = "\<lambda>_. 0" and ?j2.0 = "\<lambda>_. 1"
      and ?s1.0 = "\<lparr>prefix = ''pot'', Potentiometer.pin = 3, Potentiometer.last_value = 512\<rparr>"
      and ?s2.0 = "\<lparr>prefix = ''other'', Potentiometer.pin = 4, Potentiometer.last_value = 512\<rparr>"
      and ?j3.0 = "\<lambda>_. None" and ?j4.0 = "\<lambda>_. Some 1"
      and ?u1.0 = "\<lparr>prefix = ''sonar'', Sonar.pin = 7, Sonar.last_value = 150\<rparr>"
      and ?u2.0 = "\<lparr>prefix = ''other'', Sonar.pin = 8, Sonar.last_value = 150\<rparr>"]
  by (simp add: AMG_new_def AMG_call1_def call1_def AMG_spec_read AMG_spec_get_data
        AMG_init_def AMG_init_body_def vector_ctor_def Potentiometer_new_def
        Potentiometer_spec_read Potentiometer_spec_get_data Sonar_spec_read
        Sonar_spec_get_data returned_def)

text \<open>
  C4, for the specified bodies. For each of the three sensors and every state of the
  object, a second call of \<open>get_data\<close> right after a first returns what the first
  returned: the same text, or for an \<open>AMG\<close> before \<open>init\<close> the same refusal.
\<close>

theorem get_data_twice_same:
  "returned (get_data Potentiometer_spec j (object_after s (get_data Potentiometer_spec i s)))
     = returned (get_data Potentiometer_spec i s) \<and>
   returned (get_data (Sonar_spec sentinel) j' (object_after u (get_data (Sonar_spec sentinel) i' u)))
     = returned (get_data (Sonar_spec sentinel) i' u) \<and>
   returned (get_data (AMG_spec fmt) k' (object_after w (get_data (AMG_spec fmt) k w)))
     = returned (get_data (AMG_spec fmt) k w)"
  by (simp add: Potentiometer_spec_get_data Sonar_spec_get_data AMG_spec_get_data
        returned_def object_after_def)

text \<open>
  C9, for the specified bodies. The state machine of an \<open>AMG\<close> has exactly the two
  states \<open>Uninitialized\<close> and \<open>Initialized\<close>. A call takes the object from
  \<open>Uninitialized\<close> to \<open>Initialized\<close> only if it is an \<open>init\<close> whose bring-up succeeds,
  and such a call does so. No sequence of calls of \<open>read\<close>, \<open>get_data\<close> and \<open>init\<close>
  takes an \<open>Initialized\<close> object back to \<open>Uninitialized\<close>.
\<close>

theorem AMG_state_machine:
  "(\<forall>q. q = Uninitialized \<or> q = Initialized) \<and> Uninitialized \<noteq> Initialized \<and>
   (AMG_state_of s = Uninitialized \<and>
    AMG_call1 AMG_init_body (AMG_spec fmt) c s = Inr t \<and>
    AMG_state_of t = Initialized \<longrightarrow> c = Init True) \<and>
   (\<exists>t. AMG_call1 AMG_init_body (AMG_spec fmt) (Init True) s = Inr t \<and>
        AMG_state_of t = Initialized) \<and>
   (AMG_state_of s = Initialized \<and>
    AMG_run AMG_init_body (AMG_spec fmt) cs s = Inr u \<longrightarrow> AMG_state_of u = Initialized)"
proof (intro conjI impI allI)
  fix q :: AMG_state
  show "q = Uninitialized \<or> q = Initialized" by (cases q) simp_all
next
  show "Uninitialized \<noteq> Initialized" by simp
next
  assume "AMG_state_of s = Uninitialized \<and>
    AMG_call1 AMG_init_body (AMG_spec fmt) c s = Inr t \<and> AMG_state_of t = Initialized"
  then show "c = Init True"
    using AMG_call1_spec_becomes_initialized [of s fmt c t]
    by (simp add: AMG_state_of_def split: if_splits)
next
  show "\<exists>t. AMG_call1 AMG_init_body (AMG_spec fmt) (Init True) s = Inr t \<and>
        AMG_state_of t = Initialized"
    by (simp add: AMG_call1_def AMG_init_def AMG_init_body_def AMG_state_of_def)
next
  assume "AMG_state_of s = Initialized \<and> AMG_run AMG_init_body (AMG_spec fmt) cs s = Inr u"
  then show "AMG_state_of u = Initialized"
    using AMG_run_spec_keeps_initialized [of s fmt cs u]
    by (simp add: AMG_state_of_def split: if_splits)
qed

text \<open>
  The theorem at a fresh \<open>AMG\<close>: a successful \<open>init\<close> initialises it, and a \<open>read\<close>, a
  failing \<open>init\<close>, a \<open>get_data\<close> and another \<open>init\<close> leave it initialised.
\<close>

theorem AMG_state_machine_witness:
  "AMG_state_of (AMG_new ''imu'' () ()) = Uninitialized \<and>
   AMG_call1 AMG_init_body (AMG_spec (\<lambda>p q r. ''amg'')) (Init True :: (bool, vector \<times> vector \<times> vector) AMG_call) (AMG_new ''imu'' () ())
     = Inr ((AMG_new ''imu'' () ())\<lparr>initialized := True\<rparr>) \<and>
   AMG_state_of ((AMG_new ''imu'' () ())\<lparr>initialized := True\<rparr>) = Initialized \<and>
   AMG_run AMG_init_body (AMG_spec (\<lambda>p q r. ''amg''))
     [Sensor_call (Read (vector_ctor, vector_ctor, vector_ctor)), Init False,
      Sensor_call (Get_data (vector_ctor, vector_ctor, vector_ctor)), Init True]
     ((AMG_new ''imu'' () ())\<lparr>initialized := True\<rparr>)
     = Inr ((AMG_new ''imu'' () ())\<lparr>initialized := True\<rparr>)"
  using AMG_state_machine
    [where s = "AMG_new ''imu'' () ()" and fmt = "\<lambda>p q r. ''amg''"
      and c = "Init True :: (bool, vector \<times> vector \<times> vector) AMG_call"
      and t = "(AMG_new ''imu'' () ())\<lparr>initialized := True\<rparr>"]
    AMG_state_machine
    [where s = "(AMG_new ''imu'' () ())\<lparr>initialized := True\<rparr>" and fmt = "\<lambda>p q r. ''amg''"
      and cs = "[Sensor_call (Read (vector_ctor, vector_ctor, vector_ctor)), Init False,
      Sensor_call (Get_data (vector_ctor, vector_ctor, vector_ctor)), Init True]"
      and u = "(AMG_new ''imu'' () ())\<lparr>initialized := True\<rparr>"]
  by (simp add: AMG_new_def AMG_call1_def call1_def AMG_spec_read AMG_spec_get_data
        AMG_init_def AMG_init_body_def AMG_state_of_def)

end
